theory Spec2Isabelle
  imports Complex_Main
begin

section \<open>The adaptive interview engine of \<^verbatim>\<open>app.py\<close> (class \<^verbatim>\<open>ExcelInterviewer\<close>)\<close>

text \<open>
  The engine keeps a dictionary of sessions and a fixed bank of questions. Every method
  of the class becomes a function that takes the interviewer state and returns the new
  state together with the value the method returns. What the Python reads from its
  environment is an argument of the model:
  \<^item> the UUID of a new session (\<^verbatim>\<open>uuid.uuid4()\<close>),
  \<^item> the clock reading (\<^verbatim>\<open>datetime.now()\<close>), as microseconds; the session stores
    its ISO text, which \<^verbatim>\<open>fromisoformat\<close> reads back unchanged,
  \<^item> the draw of \<^verbatim>\<open>random.choice\<close>, as a natural number reduced modulo the length
    of the list chosen from,
  \<^item> the outcome of the remote (Groq) evaluation, \<open>None\<close> when the call or the parsing
    of its reply raised; a reply is taken to carry an integer score and the three other
    fields with their expected types.
  Python integers are \<open>int\<close>. What Python computes in binary floating point (the
  success rate, the thresholds \<^verbatim>\<open>points * 0.8\<close> and \<^verbatim>\<open>points * 0.6\<close>, the
  percentage, the duration) is an exact rational here. The two differ in three ways,
  none of which a property below relies on:
  \<^item> a double carries a rounding error: for 11 points of 20 the code's percentage is
    55.00000000000001, the model's 55; the bands and recommendations read from it
    agree;
  \<^item> \<^verbatim>\<open>round(x, 1)\<close> rounds the double, not the exact quotient, so the durations
    differ near a tie: after 21 seconds the code reports 0.3 minutes, the model 0.4;
  \<^item> the division of two integers raises \<^verbatim>\<open>OverflowError\<close> when the quotient is
    beyond the range of a double, which only a remote score of that size can cause;
    the model has no such error.
\<close>

subsection \<open>Strings\<close>

text \<open>
  A Python \<^verbatim>\<open>str\<close> is the list of its code points; the model covers code points below
  256. \<open>py_isspace\<close> is the whitespace of \<^verbatim>\<open>str.split()\<close> in that range, \<open>py_lower\<close>
  is \<^verbatim>\<open>str.lower()\<close>, \<open>py_in\<close> is the substring test \<^verbatim>\<open>k in s\<close>.
\<close>

definition py_isspace :: "char \<Rightarrow> bool" where
  "py_isspace c =
     (let n = (of_char c :: nat)
      in (9 \<le> n \<and> n \<le> 13) \<or> (28 \<le> n \<and> n \<le> 32) \<or> n = 133 \<or> n = 160)"

fun split_from :: "string \<Rightarrow> string \<Rightarrow> string list" where
  "split_from cur [] = (if cur = [] then [] else [cur])"
| "split_from cur (c # cs) =
     (if py_isspace c
      then (if cur = [] then split_from [] cs else cur # split_from [] cs)
      else split_from (cur @ [c]) cs)"

definition py_split :: "string \<Rightarrow> string list" where
  "py_split s = split_from [] s"

definition py_lower_char :: "char \<Rightarrow> char" where
  "py_lower_char c =
     (let n = (of_char c :: nat)
      in if (65 \<le> n \<and> n \<le> 90) \<or> (192 \<le> n \<and> n \<le> 214) \<or> (216 \<le> n \<and> n \<le> 222)
         then char_of (n + 32) else c)"

definition py_lower :: "string \<Rightarrow> string" where
  "py_lower s = map py_lower_char s"

fun startswith :: "string \<Rightarrow> string \<Rightarrow> bool" where
  "startswith s [] = True"
| "startswith [] (k # ks) = False"
| "startswith (c # cs) (k # ks) = (c = k \<and> startswith cs ks)"

fun py_in :: "string \<Rightarrow> string \<Rightarrow> bool" where
  "py_in k [] = (k = [])"
| "py_in k (c # cs) = (startswith (c # cs) k \<or> py_in k cs)"

fun py_join :: "string \<Rightarrow> string list \<Rightarrow> string" where
  "py_join sep [] = []"
| "py_join sep [x] = x"
| "py_join sep (x # y # ys) = x @ sep @ py_join sep (y # ys)"

fun str_nat :: "nat \<Rightarrow> string" where
  "str_nat n =
     (if n < 10 then [''0123456789'' ! n]
      else str_nat (n div 10) @ [''0123456789'' ! (n mod 10)])"

definition str_int :: "int \<Rightarrow> string" where
  "str_int i = (if i < 0 then CHR ''-'' # str_nat (nat (- i)) else str_nat (nat i))"

subsection \<open>Data model\<close>

type_synonym timestamp = int

datatype py_error = IndexError

record question_record =
  category :: string
  difficulty :: int
  question :: string
  ideal_answer :: string
  points :: int

record evaluation =
  score :: int
  feedback :: string
  strengths :: "string list"
  improvements :: "string list"

record response_record =
  r_question :: string
  response :: string
  r_evaluation :: evaluation
  timestamp :: timestamp

record session =
  session_id :: string
  current_question :: int
  total_score :: int
  max_score :: int
  responses :: "response_record list"
  difficulty_level :: int
  questions_asked :: "question_record list"
  started_at :: timestamp
  completed_at :: "timestamp option"
  status :: string

record question_view =
  question_number :: int
  v_question :: string
  v_category :: string
  v_difficulty :: int
  total_questions :: int

text \<open>
  The fields of \<^verbatim>\<open>self\<close> that the engine reads: two entries of \<^verbatim>\<open>self.config\<close>,
  whether a Groq client was built, the session dictionary and the question bank.
\<close>

record interviewer =
  max_questions :: int
  min_response_length :: int
  groq_client :: bool
  sessions :: "string \<rightharpoonup> session"
  questions :: "question_record list"

subsection \<open>The question bank (\<^verbatim>\<open>load_questions\<close>)\<close>

text \<open>The rows of the embedded CSV text, in file order, as \<^verbatim>\<open>csv.DictReader\<close> yields them.\<close>

definition load_questions :: "question_record list" where
  "load_questions =
   [\<lparr>category = ''Basic'', difficulty = 1,
     question = ''Explain the difference between VLOOKUP and INDEX-MATCH functions.'',
     ideal_answer = ''VLOOKUP searches vertically in first column and returns value from specified column. INDEX-MATCH is more flexible - INDEX returns value at intersection, MATCH finds position. INDEX-MATCH can look left, handles column insertions better, and is generally more robust.'',
     points = 20\<rparr>,
    \<lparr>category = ''Basic'', difficulty = 1,
     question = ''How would you remove duplicates from a dataset in Excel?'',
     ideal_answer = ''Multiple methods: 1) Data tab > Remove Duplicates tool, 2) Advanced Filter with 'Unique records only', 3) Using formulas like UNIQUE() function in newer Excel versions. Remove Duplicates is most common for simple cases.'',
     points = 15\<rparr>,
    \<lparr>category = ''Intermediate'', difficulty = 2,
     question = ''You have sales data with dates, regions, and amounts. How would you create a summary showing total sales by month and region?'',
     ideal_answer = ''Create a Pivot Table: 1) Select data, 2) Insert > PivotTable, 3) Drag Date to Rows (group by month), Region to Columns, Amount to Values (SUM). Alternatively use SUMIFS with date criteria or Power Query for complex scenarios.'',
     points = 25\<rparr>,
    \<lparr>category = ''Intermediate'', difficulty = 2,
     question = ''Explain conditional formatting and give a practical example.'',
     ideal_answer = ''Conditional formatting applies visual formatting based on cell values or formulas. Example: Highlight cells >1000 in green, <500 in red for sales targets. Use Home > Conditional Formatting, choose rule type, set conditions and formatting. Useful for data bars, color scales, icon sets.'',
     points = 20\<rparr>,
    \<lparr>category = ''Advanced'', difficulty = 3,
     question = ''How would you automate a repetitive task in Excel?'',
     ideal_answer = ''Multiple approaches: 1) Record Macro (Developer tab), 2) Write VBA code for complex logic, 3) Use Power Query for data transformations, 4) Power Automate for workflow automation. Macros best for repetitive formatting/calculations, Power Query for data processing.'',
     points = 30\<rparr>,
    \<lparr>category = ''Advanced'', difficulty = 3,
     question = ''Explain dynamic arrays and spill ranges in modern Excel.'',
     ideal_answer = ''Dynamic arrays automatically resize based on formula results. Functions like FILTER, SORT, UNIQUE return arrays that 'spill' into adjacent cells. Spill range is the area occupied by dynamic array. Use # to reference entire spill range. Enables more powerful, flexible formulas.'',
     points = 25\<rparr>,
    \<lparr>category = ''Basic'', difficulty = 1,
     question = ''What's the difference between relative and absolute cell references?'',
     ideal_answer = ''Relative references (A1) change when copied to different cells. Absolute references ($A$1) stay fixed. Mixed references ($A1 or A$1) fix either row or column. Use F4 to toggle reference types. Critical for formulas that need fixed reference points.'',
     points = 15\<rparr>,
    \<lparr>category = ''Intermediate'', difficulty = 2,
     question = ''How would you handle errors in Excel formulas?'',
     ideal_answer = ''Use error handling functions: IFERROR, ISERROR, IFNA. Example: =IFERROR(VLOOKUP(A1,data,2,FALSE),'Not Found'). Also use data validation to prevent errors, check for #N/A, #VALUE!, #DIV/0! etc. Power Query also has error handling capabilities.'',
     points = 20\<rparr>]"

subsection \<open>\<^verbatim>\<open>create_session\<close>\<close>

definition create_session :: "interviewer \<Rightarrow> string \<Rightarrow> timestamp \<Rightarrow> interviewer \<times> string" where
  "create_session iv sid now =
     (iv\<lparr>sessions := (sessions iv)(sid \<mapsto>
         \<lparr>session_id = sid, current_question = 0, total_score = 0, max_score = 0,
          responses = [], difficulty_level = 1, questions_asked = [],
          started_at = now, completed_at = None, status = ''active''\<rparr>)\<rparr>,
      sid)"

subsection \<open>\<^verbatim>\<open>get_next_question\<close>\<close>

text \<open>
  \<^verbatim>\<open>random.choice(xs)\<close> returns one element of a non-empty \<^verbatim>\<open>xs\<close>; the engine calls
  it on non-empty lists only. The draw \<open>r\<close> picks the element.
\<close>

definition random_choice :: "nat \<Rightarrow> 'a list \<Rightarrow> 'a" where
  "random_choice r xs = xs ! (r mod length xs)"

definition available_questions :: "interviewer \<Rightarrow> session \<Rightarrow> question_record list" where
  "available_questions iv s =
     filter (\<lambda>q. difficulty q \<le> difficulty_level s + 1 \<and> q \<notin> set (questions_asked s))
       (questions iv)"

definition success_rate :: "session \<Rightarrow> rat" where
  "success_rate s =
     (if max_score s > 0 then of_int (total_score s) / of_int (max_score s) else 0)"

text \<open>The new \<^verbatim>\<open>difficulty_level\<close> of a call that is not the first of its session.\<close>

definition adjusted_level :: "session \<Rightarrow> int" where
  "adjusted_level s =
     (if success_rate s > 8 / 10 then min 3 (difficulty_level s + 1)
      else if success_rate s < 4 / 10 then max 1 (difficulty_level s)
      else difficulty_level s)"

text \<open>
  \<^verbatim>\<open>next((q for q in available if q['difficulty'] == 1), available[0])\<close>: the default is
  evaluated first, on a list the caller has found non-empty.
\<close>

definition first_question :: "question_record list \<Rightarrow> question_record" where
  "first_question avail =
     (case filter (\<lambda>q. difficulty q = 1) avail of [] \<Rightarrow> hd avail | q # _ \<Rightarrow> q)"

definition later_question :: "nat \<Rightarrow> int \<Rightarrow> question_record list \<Rightarrow> question_record" where
  "later_question r lvl avail =
     (let suitable = filter (\<lambda>q. difficulty q = lvl) avail
      in if suitable \<noteq> [] then random_choice r suitable else random_choice r avail)"

definition get_next_question ::
  "interviewer \<Rightarrow> string \<Rightarrow> nat \<Rightarrow> interviewer \<times> question_view option" where
  "get_next_question iv sid r =
     (case sessions iv sid of
        None \<Rightarrow> (iv, None)
      | Some s \<Rightarrow>
          if status s \<noteq> ''active'' then (iv, None)
          else
            let avail = available_questions iv s
            in if avail = [] \<or> current_question s \<ge> max_questions iv then (iv, None)
               else
                 let lvl = (if current_question s = 0 then difficulty_level s
                            else adjusted_level s);
                     q = (if current_question s = 0 then first_question avail
                          else later_question r lvl avail);
                     s' = s\<lparr>difficulty_level := lvl,
                            questions_asked := questions_asked s @ [q],
                            current_question := current_question s + 1,
                            max_score := max_score s + points q\<rparr>
                 in (iv\<lparr>sessions := (sessions iv)(sid \<mapsto> s')\<rparr>,
                     Some \<lparr>question_number = current_question s',
                           v_question = question q,
                           v_category = category q,
                           v_difficulty = difficulty q,
                           total_questions = max_questions iv\<rparr>))"

subsection \<open>\<^verbatim>\<open>evaluate_response_fallback\<close>\<close>

definition technical_keywords :: "(string \<times> string list) list" where
  "technical_keywords =
     [(''vlookup'', [''vlookup'', ''lookup'', ''vertical'']),
      (''pivot'', [''pivot'', ''table'', ''summarize'', ''group'']),
      (''formula'', [''formula'', ''function'', ''calculate'']),
      (''formatting'', [''format'', ''conditional'', ''highlight'']),
      (''reference'', [''reference'', ''absolute'', ''relative'', ''$'']),
      (''macro'', [''macro'', ''vba'', ''automate'', ''script''])]"

text \<open>The loop over \<^verbatim>\<open>technical_keywords.items()\<close>: the topics that add 2 to the bonus.\<close>

definition found_keywords :: "string \<Rightarrow> string \<Rightarrow> string list" where
  "found_keywords response_lower question_lower =
     map fst (filter (\<lambda>(topic, keywords).
                list_ex (\<lambda>keyword. py_in keyword question_lower) keywords \<and>
                list_ex (\<lambda>keyword. py_in keyword response_lower) keywords)
              technical_keywords)"

definition evaluate_response_fallback :: "string \<Rightarrow> question_record \<Rightarrow> evaluation" where
  "evaluate_response_fallback resp current =
     (let response_length = int (length (py_split resp));
          base_score = min (points current) (max 1 (response_length div 5));
          found = found_keywords (py_lower resp) (py_lower (question current));
          keyword_bonus = 2 * int (length found);
          final_score = min (points current) (base_score + keyword_bonus);
          (fb, strs) =
            (if (of_int final_score :: rat) \<ge> of_int (points current) * (8 / 10)
             then (''Good comprehensive answer covering key concepts.'',
                   [''Covers main points'', ''Good technical understanding''])
             else if (of_int final_score :: rat) \<ge> of_int (points current) * (6 / 10)
             then (''Solid answer with room for more detail.'', [''Basic concepts covered''])
             else (''Answer needs more technical detail and examples.'',
                   [''Response provided'']));
          imps1 = (if response_length < 20 then [''Provide more detailed explanations''] else []);
          imps2 = imps1 @ (if found = [] then [''Include more technical terminology''] else []);
          imps3 = (if imps2 = [] then [''Consider adding practical examples''] else imps2)
      in \<lparr>score = final_score, feedback = fb, strengths = strs, improvements = imps3\<rparr>)"

subsection \<open>\<^verbatim>\<open>evaluate_response\<close>\<close>

text \<open>
  \<open>reply\<close> is what the Groq call and \<^verbatim>\<open>json.loads\<close> produce, \<open>None\<close> when either raises;
  without a client the method returns \<open>None\<close> before calling.
\<close>

definition evaluate_response_with_groq :: "interviewer \<Rightarrow> evaluation option \<Rightarrow> evaluation option" where
  "evaluate_response_with_groq iv reply = (if \<not> groq_client iv then None else reply)"

definition too_short :: "interviewer \<Rightarrow> evaluation" where
  "too_short iv =
     \<lparr>score = 0,
      feedback = ''Please provide a more detailed response (minimum '' @
                 str_int (min_response_length iv) @ '' words).'',
      strengths = [],
      improvements = [''Provide more detailed explanations'']\<rparr>"

definition evaluate_response ::
  "interviewer \<Rightarrow> string \<Rightarrow> string \<Rightarrow> timestamp \<Rightarrow> evaluation option \<Rightarrow>
   interviewer \<times> evaluation option" where
  "evaluate_response iv sid resp now reply =
     (case sessions iv sid of
        None \<Rightarrow> (iv, None)
      | Some s \<Rightarrow>
          if questions_asked s = [] then (iv, None)
          else
            let current = last (questions_asked s)
            in if int (length (py_split resp)) < min_response_length iv
               then (iv, Some (too_short iv))
               else
                 let ev = (case (if groq_client iv then evaluate_response_with_groq iv reply
                                 else None) of
                             None \<Rightarrow> evaluate_response_fallback resp current
                           | Some e \<Rightarrow> e);
                     s' = s\<lparr>responses := responses s @
                              [\<lparr>r_question = question current, response = resp,
                                r_evaluation = ev, timestamp = now\<rparr>],
                            total_score := total_score s + score ev\<rparr>
                 in (iv\<lparr>sessions := (sessions iv)(sid \<mapsto> s')\<rparr>, Some ev))"

subsection \<open>\<^verbatim>\<open>generate_final_report\<close>\<close>

text \<open>
  The report text is an f-string; it is kept as the list of its literal parts and of the
  values interpolated between them. \<open>Fixed1\<close> is a value printed with \<^verbatim>\<open>:.1f\<close>,
  \<open>FloatArg\<close> one printed as Python prints a float.
\<close>

datatype fpart = Lit string | IntArg int | Fixed1 rat | FloatArg rat

definition nl :: string where
  "nl = [CHR 0x0A]"

text \<open>
  \<^verbatim>\<open>round(x, 1)\<close>, on the exact quotient: to the nearest tenth, a tie to the even one.
  It is the code's value wherever the quotient is not within a rounding error of a tie,
  whole minutes among them.
\<close>

definition round1 :: "rat \<Rightarrow> rat" where
  "round1 x =
     (let y = x * 10; f = \<lfloor>y\<rfloor>; d = y - of_int f
      in of_int (if d < 1 / 2 then f else if d > 1 / 2 then f + 1
                 else if even f then f else f + 1) / 10)"

text \<open>
  \<^verbatim>\<open>_calculate_duration\<close>: the key \<^verbatim>\<open>completed_at\<close> is always in the dictionary, so the
  default of \<^verbatim>\<open>get\<close> is never used; parsing the value \<^verbatim>\<open>None\<close> raises and the bare
  \<^verbatim>\<open>except\<close> returns 0.
\<close>

definition calculate_duration :: "session \<Rightarrow> rat" where
  "calculate_duration s =
     (case completed_at s of
        None \<Rightarrow> 0
      | Some e \<Rightarrow> round1 (of_int (e - started_at s) / 1000000 / 60))"

definition get_hiring_recommendation :: "rat \<Rightarrow> string" where
  "get_hiring_recommendation pct =
     (if pct \<ge> 75 then ''Strong Hire - Excellent Excel skills demonstrated''
      else if pct \<ge> 60 then ''Hire - Good Excel foundation with room for growth''
      else if pct \<ge> 45 then ''Consider - Basic skills present, may need training''
      else ''No Hire - Insufficient Excel proficiency for role requirements'')"

definition overall_percentage :: "session \<Rightarrow> rat" where
  "overall_percentage s =
     (if max_score s > 0 then (of_int (total_score s) / of_int (max_score s)) * 100 else 0)"

definition proficiency_of :: "rat \<Rightarrow> string" where
  "proficiency_of pct =
     (if pct \<ge> 80 then ''Advanced''
      else if pct \<ge> 60 then ''Intermediate''
      else if pct \<ge> 40 then ''Basic''
      else ''Beginner'')"

text \<open>
  The loop \<^verbatim>\<open>for i, response in enumerate(session['responses'], 1)\<close>. It reads
  \<^verbatim>\<open>session['questions_asked'][i-1]\<close>, which raises \<^verbatim>\<open>IndexError\<close> once there are more
  responses than questions asked.
\<close>

fun performance_analysis ::
  "nat \<Rightarrow> response_record list \<Rightarrow> question_record list \<Rightarrow> py_error + fpart list" where
  "performance_analysis i [] qs = Inr []"
| "performance_analysis i (rsp # rest) qs =
     (if i - 1 < length qs
      then (case performance_analysis (i + 1) rest qs of
              Inl e \<Rightarrow> Inl e
            | Inr parts \<Rightarrow>
                Inr ([Lit (nl @ ''Question ''), IntArg (int i), Lit '': '',
                      IntArg (score (r_evaluation rsp)), Lit ''/'',
                      IntArg (points (qs ! (i - 1))),
                      Lit ('' points'' @ nl @ ''- Strengths: '' @
                           py_join '', '' (strengths (r_evaluation rsp)) @ nl @
                           ''- Areas for Improvement: '' @
                           py_join '', '' (improvements (r_evaluation rsp)) @ nl)]
                     @ parts))
      else Inl IndexError)"

definition report_header :: "interviewer \<Rightarrow> session \<Rightarrow> fpart list" where
  "report_header iv s =
     [Lit (nl @ ''EXCEL SKILLS ASSESSMENT REPORT'' @ nl @ nl @
           ''Candidate Performance Summary:'' @ nl @ ''- Overall Score: ''),
      IntArg (total_score s), Lit ''/'', IntArg (max_score s), Lit '' ('',
      Fixed1 (overall_percentage s),
      Lit (''%)'' @ nl @ ''- Proficiency Level: '' @ proficiency_of (overall_percentage s) @ nl @
           ''- Questions Completed: ''),
      IntArg (int (length (responses s))), Lit ''/'', IntArg (max_questions iv),
      Lit (nl @ ''- Session Duration: ''), FloatArg (calculate_duration s),
      Lit ('' minutes'' @ nl @ nl @ ''Performance Analysis:'' @ nl)]"

definition report_assessment :: "string \<Rightarrow> fpart list" where
  "report_assessment proficiency =
     [Lit (nl @ ''Overall Assessment:'' @ nl @ ''The candidate demonstrates '' @
           py_lower proficiency @ '' Excel proficiency. ''),
      Lit (if proficiency = ''Advanced''
           then ''Excellent technical knowledge with strong problem-solving approach.''
           else if proficiency = ''Intermediate''
           then ''Good foundational skills with room for advanced feature mastery.''
           else if proficiency = ''Basic''
           then ''Basic understanding present, would benefit from additional training.''
           else ''Limited Excel experience, requires comprehensive training program.'')]"

record final_report =
  r_session_id :: string
  overall_score :: int
  max_possible_score :: int
  percentage :: rat
  proficiency_level :: string
  questions_answered :: int
  detailed_responses :: "response_record list"
  report :: "fpart list"
  duration_minutes :: rat
  recommendation :: string

text \<open>
  The session is marked and stamped before anything is computed, so the mutation stays
  when the loop raises. The result is the raised error, \<open>None\<close> for an unknown session,
  or the report.
\<close>

definition generate_final_report ::
  "interviewer \<Rightarrow> string \<Rightarrow> timestamp \<Rightarrow> interviewer \<times> (py_error + final_report option)" where
  "generate_final_report iv sid now =
     (case sessions iv sid of
        None \<Rightarrow> (iv, Inr None)
      | Some s0 \<Rightarrow>
          let s = s0\<lparr>status := ''completed'', completed_at := Some now\<rparr>;
              iv' = iv\<lparr>sessions := (sessions iv)(sid \<mapsto> s)\<rparr>;
              pct = overall_percentage s;
              proficiency = proficiency_of pct
          in (case performance_analysis 1 (responses s) (questions_asked s) of
                Inl e \<Rightarrow> (iv', Inl e)
              | Inr parts \<Rightarrow>
                  (iv', Inr (Some
                     \<lparr>r_session_id = sid,
                      overall_score = total_score s,
                      max_possible_score = max_score s,
                      percentage = pct,
                      proficiency_level = proficiency,
                      questions_answered = int (length (responses s)),
                      detailed_responses = responses s,
                      report = report_header iv s @ parts @ report_assessment proficiency,
                      duration_minutes = calculate_duration s,
                      recommendation = get_hiring_recommendation pct\<rparr>))))"

subsection \<open>Sequences of calls\<close>

text \<open>
  One call of a method, with what it reads from the environment, and the state after a
  list of calls. \<open>ExcelInterviewer_init\<close> is the state \<^verbatim>\<open>__init__\<close> builds, its
  configuration read from the process environment.
\<close>

datatype engine_op =
    CreateSession string timestamp
  | NextQuestion string nat
  | SubmitAnswer string string timestamp "evaluation option"
  | GenerateReport string timestamp

fun step :: "interviewer \<Rightarrow> engine_op \<Rightarrow> interviewer" where
  "step iv (CreateSession sid now) = fst (create_session iv sid now)"
| "step iv (NextQuestion sid r) = fst (get_next_question iv sid r)"
| "step iv (SubmitAnswer sid resp now reply) = fst (evaluate_response iv sid resp now reply)"
| "step iv (GenerateReport sid now) = fst (generate_final_report iv sid now)"

definition run :: "interviewer \<Rightarrow> engine_op list \<Rightarrow> interviewer" where
  "run iv ops = foldl step iv ops"

definition ExcelInterviewer_init :: "int \<Rightarrow> int \<Rightarrow> bool \<Rightarrow> interviewer" where
  "ExcelInterviewer_init max_q min_len groq =
     \<lparr>max_questions = max_q, min_response_length = min_len, groq_client = groq,
      sessions = Map.empty, questions = load_questions\<rparr>"

subsection \<open>Example states\<close>

text \<open>
  Concrete states on which the theorems below are instantiated: an interviewer with the
  default configuration and no Groq client, the same after \<^verbatim>\<open>create_session\<close>, and
  after the first \<^verbatim>\<open>get_next_question\<close>.
\<close>

definition example_iv :: interviewer where
  "example_iv = ExcelInterviewer_init 5 5 False"

definition opened_iv :: interviewer where
  "opened_iv = fst (create_session example_iv ''s1'' 0)"

definition asked_iv :: interviewer where
  "asked_iv = fst (get_next_question opened_iv ''s1'' 0)"

text \<open>
  The same session after \<^verbatim>\<open>generate_final_report\<close>; and an interviewer with a Groq
  client, after the first question and after a remote reply that gives all 20 points.
\<close>

definition completed_iv :: interviewer where
  "completed_iv = fst (generate_final_report asked_iv ''s1'' 60000000)"

definition groq_iv :: interviewer where
  "groq_iv = ExcelInterviewer_init 5 5 True"

definition full_marks :: evaluation where
  "full_marks = \<lparr>score = 20, feedback = ''Correct and complete.'',
                 strengths = [''Accurate''], improvements = []\<rparr>"

definition groq_asked_iv :: interviewer where
  "groq_asked_iv = run groq_iv [CreateSession ''s1'' 0, NextQuestion ''s1'' 0]"

definition groq_scored_iv :: interviewer where
  "groq_scored_iv =
     fst (evaluate_response groq_asked_iv ''s1'' ''one two three four five'' 1000000
            (Some full_marks))"

section \<open>Properties\<close>

subsection \<open>The methods, case by case\<close>

lemma random_choice_in: "xs \<noteq> [] \<Longrightarrow> random_choice r xs \<in> set xs"
  by (simp add: random_choice_def)

lemma first_question_in: "avail \<noteq> [] \<Longrightarrow> first_question avail \<in> set avail"
proof (cases "filter (\<lambda>q. difficulty q = 1) avail")
  case Nil
  assume "avail \<noteq> []"
  with Nil show ?thesis by (simp add: first_question_def)
next
  case (Cons q qs)
  have "set (filter (\<lambda>q. difficulty q = 1) avail) \<subseteq> set avail" by simp
  with Cons have "q \<in> set avail" by auto
  with Cons show ?thesis by (simp add: first_question_def)
qed

lemma later_question_in: "avail \<noteq> [] \<Longrightarrow> later_question r lvl avail \<in> set avail"
proof -
  assume ne: "avail \<noteq> []"
  show ?thesis
  proof (cases "filter (\<lambda>q. difficulty q = lvl) avail = []")
    case True
    with ne show ?thesis by (simp add: later_question_def random_choice_in)
  next
    case False
    then have "random_choice r (filter (\<lambda>q. difficulty q = lvl) avail)
                 \<in> set (filter (\<lambda>q. difficulty q = lvl) avail)"
      by (rule random_choice_in)
    with False show ?thesis by (simp add: later_question_def)
  qed
qed

lemma adjusted_level_bounds:
  "1 \<le> difficulty_level s \<Longrightarrow> difficulty_level s \<le> 3 \<Longrightarrow>
   difficulty_level s \<le> adjusted_level s \<and> adjusted_level s \<le> 3"
  by (simp add: adjusted_level_def)

lemma get_next_question_unknown:
  "sessions iv sid = None \<Longrightarrow> get_next_question iv sid r = (iv, None)"
  by (simp add: get_next_question_def)

lemma get_next_question_none:
  "sessions iv sid = Some s \<Longrightarrow>
   status s \<noteq> ''active'' \<or> available_questions iv s = [] \<or> max_questions iv \<le> current_question s \<Longrightarrow>
   get_next_question iv sid r = (iv, None)"
  by (auto simp: get_next_question_def Let_def)

lemma get_next_question_some:
  assumes "sessions iv sid = Some s" "status s = ''active''"
    "available_questions iv s \<noteq> []" "current_question s < max_questions iv"
  shows "\<exists>q lvl. q \<in> set (available_questions iv s) \<and>
           lvl = (if current_question s = 0 then difficulty_level s else adjusted_level s) \<and>
           get_next_question iv sid r =
             (iv\<lparr>sessions := (sessions iv)(sid \<mapsto>
                  s\<lparr>difficulty_level := lvl,
                    questions_asked := questions_asked s @ [q],
                    current_question := current_question s + 1,
                    max_score := max_score s + points q\<rparr>)\<rparr>,
              Some \<lparr>question_number = current_question s + 1,
                    v_question = question q, v_category = category q,
                    v_difficulty = difficulty q,
                    total_questions = max_questions iv\<rparr>)"
proof (cases "current_question s = 0")
  case True
  have "first_question (available_questions iv s) \<in> set (available_questions iv s)"
    using assms(3) by (rule first_question_in)
  with assms True show ?thesis
    by (intro exI [of _ "first_question (available_questions iv s)"]
              exI [of _ "difficulty_level s"])
       (simp add: get_next_question_def Let_def)
next
  case False
  have "later_question r (adjusted_level s) (available_questions iv s)
          \<in> set (available_questions iv s)"
    using assms(3) by (rule later_question_in)
  with assms False show ?thesis
    by (intro exI [of _ "later_question r (adjusted_level s) (available_questions iv s)"]
              exI [of _ "adjusted_level s"])
       (simp add: get_next_question_def Let_def)
qed


lemma evaluate_response_rejected:
  "sessions iv sid = None \<or> (\<exists>s. sessions iv sid = Some s \<and> questions_asked s = []) \<Longrightarrow>
   evaluate_response iv sid resp now reply = (iv, None)"
  by (auto simp: evaluate_response_def)

lemma evaluate_response_short:
  "sessions iv sid = Some s \<Longrightarrow> questions_asked s \<noteq> [] \<Longrightarrow>
   int (length (py_split resp)) < min_response_length iv \<Longrightarrow>
   evaluate_response iv sid resp now reply = (iv, Some (too_short iv))"
  by (simp add: evaluate_response_def Let_def)

lemma evaluate_response_remote:
  assumes "sessions iv sid = Some s" "questions_asked s \<noteq> []"
    "\<not> int (length (py_split resp)) < min_response_length iv"
    "groq_client iv" "reply = Some ev"
  shows "evaluate_response iv sid resp now reply =
            (iv\<lparr>sessions := (sessions iv)(sid \<mapsto>
                 s\<lparr>responses := responses s @
                      [\<lparr>r_question = question (last (questions_asked s)), response = resp,
                        r_evaluation = ev, timestamp = now\<rparr>],
                   total_score := total_score s + score ev\<rparr>)\<rparr>,
             Some ev)"
  using assms by (simp add: evaluate_response_def evaluate_response_with_groq_def Let_def)

lemma evaluate_response_local:
  assumes "sessions iv sid = Some s" "questions_asked s \<noteq> []"
    "\<not> int (length (py_split resp)) < min_response_length iv"
    "\<not> groq_client iv \<or> reply = None"
  shows "evaluate_response iv sid resp now reply =
            (iv\<lparr>sessions := (sessions iv)(sid \<mapsto>
                 s\<lparr>responses := responses s @
                      [\<lparr>r_question = question (last (questions_asked s)), response = resp,
                        r_evaluation = evaluate_response_fallback resp (last (questions_asked s)),
                        timestamp = now\<rparr>],
                   total_score := total_score s +
                     score (evaluate_response_fallback resp (last (questions_asked s)))\<rparr>)\<rparr>,
             Some (evaluate_response_fallback resp (last (questions_asked s))))"
  using assms by (auto simp: evaluate_response_def evaluate_response_with_groq_def Let_def)

lemma generate_final_report_unknown:
  "sessions iv sid = None \<Longrightarrow> generate_final_report iv sid now = (iv, Inr None)"
  by (simp add: generate_final_report_def)

lemma generate_final_report_state:
  "sessions iv sid = Some s \<Longrightarrow>
   fst (generate_final_report iv sid now) =
     iv\<lparr>sessions := (sessions iv)(sid \<mapsto> s\<lparr>status := ''completed'', completed_at := Some now\<rparr>)\<rparr>"
  by (simp add: generate_final_report_def Let_def split: sum.splits)


lemma available_not_asked: "q \<in> set (available_questions iv s) \<Longrightarrow> q \<notin> set (questions_asked s)"
  by (simp add: available_questions_def)

lemma get_next_question_sessions:
  "sessions (fst (get_next_question iv sid r)) = sessions iv \<or>
   (\<exists>s q lvl. sessions iv sid = Some s \<and> q \<notin> set (questions_asked s) \<and>
      (lvl = difficulty_level s \<or> lvl = adjusted_level s) \<and>
      sessions (fst (get_next_question iv sid r)) =
        (sessions iv)(sid \<mapsto> s\<lparr>difficulty_level := lvl,
                                questions_asked := questions_asked s @ [q],
                                current_question := current_question s + 1,
                                max_score := max_score s + points q\<rparr>))"
proof (cases "sessions iv sid")
  case None
  then show ?thesis by (simp add: get_next_question_unknown)
next
  case (Some s)
  show ?thesis
  proof (cases "status s \<noteq> ''active'' \<or> available_questions iv s = [] \<or>
                max_questions iv \<le> current_question s")
    case True
    with Some show ?thesis by (simp add: get_next_question_none)
  next
    case False
    with Some obtain q lvl where
      q: "q \<in> set (available_questions iv s)" and
      lvl: "lvl = (if current_question s = 0 then difficulty_level s else adjusted_level s)" and
      eq: "get_next_question iv sid r =
             (iv\<lparr>sessions := (sessions iv)(sid \<mapsto>
                  s\<lparr>difficulty_level := lvl,
                    questions_asked := questions_asked s @ [q],
                    current_question := current_question s + 1,
                    max_score := max_score s + points q\<rparr>)\<rparr>,
              Some \<lparr>question_number = current_question s + 1,
                    v_question = question q, v_category = category q,
                    v_difficulty = difficulty q,
                    total_questions = max_questions iv\<rparr>)"
      using get_next_question_some [of iv sid s r] by auto
    from q have "q \<notin> set (questions_asked s)" by (rule available_not_asked)
    moreover from lvl have "lvl = difficulty_level s \<or> lvl = adjusted_level s"
      by (cases "current_question s = 0") simp_all
    ultimately show ?thesis using Some eq by auto
  qed
qed

lemma evaluate_response_sessions:
  "sessions (fst (evaluate_response iv sid resp now reply)) = sessions iv \<or>
   (\<exists>s rs ts. sessions iv sid = Some s \<and>
      sessions (fst (evaluate_response iv sid resp now reply)) =
        (sessions iv)(sid \<mapsto> s\<lparr>responses := rs, total_score := ts\<rparr>))"
proof (cases "sessions iv sid")
  case None
  then show ?thesis by (simp add: evaluate_response_rejected)
next
  case (Some s)
  show ?thesis
  proof (cases "questions_asked s = []")
    case True
    with Some show ?thesis by (simp add: evaluate_response_rejected)
  next
    case ne: False
    show ?thesis
    proof (cases "int (length (py_split resp)) < min_response_length iv")
      case True
      with Some ne show ?thesis by (simp add: evaluate_response_short)
    next
      case False
      show ?thesis
      proof (cases "groq_client iv \<and> reply \<noteq> None")
        case True
        then obtain ev where ev: "reply = Some ev" and groq: "groq_client iv" by auto
        have "sessions (fst (evaluate_response iv sid resp now reply)) =
                (sessions iv)(sid \<mapsto> s\<lparr>responses := responses s @
                      [\<lparr>r_question = question (last (questions_asked s)), response = resp,
                        r_evaluation = ev, timestamp = now\<rparr>],
                   total_score := total_score s + score ev\<rparr>)"
          by (simp add: evaluate_response_remote [OF Some ne False groq ev])
        with Some show ?thesis by blast
      next
        case local: False
        then have "\<not> groq_client iv \<or> reply = None" by simp
        then have "sessions (fst (evaluate_response iv sid resp now reply)) =
                (sessions iv)(sid \<mapsto> s\<lparr>responses := responses s @
                      [\<lparr>r_question = question (last (questions_asked s)), response = resp,
                        r_evaluation = evaluate_response_fallback resp (last (questions_asked s)),
                        timestamp = now\<rparr>],
                   total_score := total_score s +
                     score (evaluate_response_fallback resp (last (questions_asked s)))\<rparr>)"
          by (simp add: evaluate_response_local [OF Some ne False])
        with Some show ?thesis by blast
      qed
    qed
  qed
qed

lemma generate_final_report_sessions:
  "sessions (fst (generate_final_report iv sid now)) = sessions iv \<or>
   (\<exists>s. sessions iv sid = Some s \<and>
      sessions (fst (generate_final_report iv sid now)) =
        (sessions iv)(sid \<mapsto> s\<lparr>status := ''completed'', completed_at := Some now\<rparr>))"
proof (cases "sessions iv sid")
  case None
  then show ?thesis by (simp add: generate_final_report_unknown)
next
  case (Some s)
  then show ?thesis by (simp add: generate_final_report_state)
qed

lemma create_session_sessions:
  "sessions (fst (create_session iv sid now)) =
     (sessions iv)(sid \<mapsto>
         \<lparr>session_id = sid, current_question = 0, total_score = 0, max_score = 0,
          responses = [], difficulty_level = 1, questions_asked = [],
          started_at = now, completed_at = None, status = ''active''\<rparr>)"
  by (simp add: create_session_def)

text \<open>What one call does to a session: it is new, it keeps the fields about questions, or one question was appended.\<close>

lemma step_session_from:
  assumes "sessions (step iv ope) sid = Some s'"
  shows "(\<exists>now. ope = CreateSession sid now \<and> questions_asked s' = [] \<and>
            current_question s' = 0 \<and> max_score s' = 0 \<and> difficulty_level s' = 1) \<or>
         (\<exists>s. sessions iv sid = Some s \<and> questions_asked s' = questions_asked s \<and>
            current_question s' = current_question s \<and> max_score s' = max_score s \<and>
            difficulty_level s' = difficulty_level s) \<or>
         (\<exists>s q. sessions iv sid = Some s \<and> q \<notin> set (questions_asked s) \<and>
            questions_asked s' = questions_asked s @ [q] \<and>
            current_question s' = current_question s + 1 \<and>
            max_score s' = max_score s + points q \<and>
            (difficulty_level s' = difficulty_level s \<or> difficulty_level s' = adjusted_level s))"
proof (cases ope)
  case (CreateSession x now)
  with assms show ?thesis
    by (cases "x = sid") (auto simp: create_session_sessions)
next
  case (NextQuestion x r)
  with assms get_next_question_sessions [of iv x r] show ?thesis
    by (cases "x = sid") (auto split: if_splits)
next
  case (SubmitAnswer x resp now reply)
  with assms evaluate_response_sessions [of iv x resp now reply] show ?thesis
    by (cases "x = sid") (auto split: if_splits)
next
  case (GenerateReport x now)
  with assms generate_final_report_sessions [of iv x now] show ?thesis
    by (cases "x = sid") (auto split: if_splits)
qed

lemma step_session_to:
  assumes "sessions iv sid = Some s" "\<And>now. ope \<noteq> CreateSession sid now"
  shows "\<exists>s'. sessions (step iv ope) sid = Some s' \<and>
           (difficulty_level s' = difficulty_level s \<or> difficulty_level s' = adjusted_level s)"
proof (cases ope)
  case (CreateSession x now)
  with assms show ?thesis
    by (cases "x = sid") (auto simp: create_session_sessions)
next
  case (NextQuestion x r)
  with assms get_next_question_sessions [of iv x r] show ?thesis
    by (cases "x = sid") (auto split: if_splits)
next
  case (SubmitAnswer x resp now reply)
  with assms evaluate_response_sessions [of iv x resp now reply] show ?thesis
    by (cases "x = sid") (auto split: if_splits)
next
  case (GenerateReport x now)
  with assms generate_final_report_sessions [of iv x now] show ?thesis
    by (cases "x = sid") (auto split: if_splits)
qed

lemma run_snoc: "run iv (ops @ [ope]) = step (run iv ops) ope"
  by (simp add: run_def)

lemma run_Nil: "run iv [] = iv"
  by (simp add: run_def)

lemma run_append: "run iv (ops @ ops') = run (run iv ops) ops'"
  by (simp add: run_def)

subsection \<open>The score formula of the fallback evaluator\<close>

lemma fallback_score_eq:
  "score (evaluate_response_fallback resp q) =
     min (points q) (min (points q) (max 1 (int (length (py_split resp)) div 5))
        + 2 * int (length (found_keywords (py_lower resp) (py_lower (question q)))))"
  by (simp only: evaluate_response_fallback_def Let_def split_beta evaluation.select_convs)

lemma fallback_score_pos: "0 < points q \<Longrightarrow> 1 \<le> score (evaluate_response_fallback resp q)"
  unfolding fallback_score_eq by linarith

lemma first_bank_points: "points (hd load_questions) = 20"
  by (simp add: load_questions_def)

subsection \<open>The first question of a session\<close>

lemma first_of_bank:
  "questions iv = load_questions \<Longrightarrow> questions_asked s = [] \<Longrightarrow> difficulty_level s = 1 \<Longrightarrow>
   available_questions iv s \<noteq> [] \<and>
   first_question (available_questions iv s) = hd load_questions"
  by (simp add: first_question_def available_questions_def load_questions_def)

lemma first_bank_view:
  "question (hd load_questions) =
     ''Explain the difference between VLOOKUP and INDEX-MATCH functions.''"
  "category (hd load_questions) = ''Basic''" "difficulty (hd load_questions) = 1"
  by (simp_all add: load_questions_def)

lemma first_call_on_bank:
  assumes "sessions iv sid = Some s" "status s = ''active''" "current_question s = 0"
    "questions_asked s = []" "difficulty_level s = 1" "0 < max_questions iv"
    "questions iv = load_questions"
  shows "get_next_question iv sid r =
           (iv\<lparr>sessions := (sessions iv)(sid \<mapsto>
                s\<lparr>difficulty_level := 1, questions_asked := [hd load_questions],
                  current_question := 1, max_score := max_score s + 20\<rparr>)\<rparr>,
            Some \<lparr>question_number = 1,
                  v_question = ''Explain the difference between VLOOKUP and INDEX-MATCH functions.'',
                  v_category = ''Basic'', v_difficulty = 1,
                  total_questions = max_questions iv\<rparr>)"
proof -
  have "available_questions iv s \<noteq> [] \<and>
        first_question (available_questions iv s) = hd load_questions"
    using assms(7,4,5) by (rule first_of_bank)
  with assms show ?thesis
    by (simp add: get_next_question_def Let_def first_bank_points first_bank_view)
qed

subsection \<open>The example states\<close>

lemma example_config:
  "sessions example_iv = Map.empty" "max_questions example_iv = 5"
  "min_response_length example_iv = 5" "\<not> groq_client example_iv"
  "questions example_iv = load_questions"
  by (simp_all add: example_iv_def ExcelInterviewer_init_def)

lemma opened_session:
  "sessions opened_iv ''s1'' =
     Some \<lparr>session_id = ''s1'', current_question = 0, total_score = 0, max_score = 0,
          responses = [], difficulty_level = 1, questions_asked = [],
          started_at = 0, completed_at = None, status = ''active''\<rparr>"
  by (simp add: opened_iv_def create_session_def)

lemma opened_config:
  "max_questions opened_iv = 5" "min_response_length opened_iv = 5" "\<not> groq_client opened_iv"
  "questions opened_iv = load_questions"
  by (simp_all add: opened_iv_def create_session_def example_config)

lemma opened_next:
  "get_next_question opened_iv ''s1'' r =
     (opened_iv\<lparr>sessions := (sessions opened_iv)(''s1'' \<mapsto>
         \<lparr>session_id = ''s1'', current_question = 1, total_score = 0, max_score = 20,
          responses = [], difficulty_level = 1, questions_asked = [hd load_questions],
          started_at = 0, completed_at = None, status = ''active''\<rparr>)\<rparr>,
      Some \<lparr>question_number = 1,
            v_question = ''Explain the difference between VLOOKUP and INDEX-MATCH functions.'',
            v_category = ''Basic'', v_difficulty = 1, total_questions = 5\<rparr>)"
  using first_call_on_bank [OF opened_session, of r] by (simp add: opened_config)

lemma asked_session:
  "sessions asked_iv ''s1'' =
     Some \<lparr>session_id = ''s1'', current_question = 1, total_score = 0, max_score = 20,
          responses = [], difficulty_level = 1, questions_asked = [hd load_questions],
          started_at = 0, completed_at = None, status = ''active''\<rparr>"
  by (simp add: asked_iv_def opened_next)

lemma asked_config:
  "max_questions asked_iv = 5" "min_response_length asked_iv = 5" "\<not> groq_client asked_iv"
  "questions asked_iv = load_questions"
  by (simp_all add: asked_iv_def opened_next opened_config)

lemma second_bank_view:
  "question (load_questions ! 1) = ''How would you remove duplicates from a dataset in Excel?''"
  "category (load_questions ! 1) = ''Basic''" "difficulty (load_questions ! 1) = 1"
  "points (load_questions ! 1) = 15" "load_questions ! 1 \<noteq> hd load_questions"
  by (simp_all add: load_questions_def)

lemma asked_later:
  "available_questions asked_iv
     \<lparr>session_id = ''s1'', current_question = 1, total_score = 0, max_score = 20,
      responses = [], difficulty_level = 1, questions_asked = [hd load_questions],
      started_at = 0, completed_at = None, status = ''active''\<rparr> \<noteq> [] \<and>
   later_question 0
     (adjusted_level \<lparr>session_id = ''s1'', current_question = 1, total_score = 0, max_score = 20,
      responses = [], difficulty_level = 1, questions_asked = [hd load_questions],
      started_at = 0, completed_at = None, status = ''active''\<rparr>)
     (available_questions asked_iv
       \<lparr>session_id = ''s1'', current_question = 1, total_score = 0, max_score = 20,
        responses = [], difficulty_level = 1, questions_asked = [hd load_questions],
        started_at = 0, completed_at = None, status = ''active''\<rparr>) = load_questions ! 1"
  by (simp add: later_question_def adjusted_level_def success_rate_def available_questions_def
        asked_config load_questions_def random_choice_def Let_def)

lemma asked_level:
  "adjusted_level \<lparr>session_id = ''s1'', current_question = 1, total_score = 0, max_score = 20,
      responses = [], difficulty_level = 1, questions_asked = [hd load_questions],
      started_at = 0, completed_at = None, status = ''active''\<rparr> = 1"
  by (simp add: adjusted_level_def success_rate_def)

lemma asked_next:
  "get_next_question asked_iv ''s1'' 0 =
     (asked_iv\<lparr>sessions := (sessions asked_iv)(''s1'' \<mapsto>
         \<lparr>session_id = ''s1'', current_question = 2, total_score = 0, max_score = 35,
          responses = [], difficulty_level = 1,
          questions_asked = [hd load_questions, load_questions ! 1],
          started_at = 0, completed_at = None, status = ''active''\<rparr>)\<rparr>,
      Some \<lparr>question_number = 2,
            v_question = ''How would you remove duplicates from a dataset in Excel?'',
            v_category = ''Basic'', v_difficulty = 1, total_questions = 5\<rparr>)"
  using asked_later
  by (simp add: get_next_question_def asked_session asked_config Let_def asked_level
        second_bank_view [unfolded One_nat_def])

lemma run_example: "run example_iv [CreateSession ''s1'' 0, NextQuestion ''s1'' 0] = asked_iv"
  by (simp add: run_def asked_iv_def opened_iv_def)

lemma completed_session:
  "sessions completed_iv ''s1'' =
     Some \<lparr>session_id = ''s1'', current_question = 1, total_score = 0, max_score = 20,
          responses = [], difficulty_level = 1, questions_asked = [hd load_questions],
          started_at = 0, completed_at = Some 60000000, status = ''completed''\<rparr>"
  by (simp add: completed_iv_def generate_final_report_state [OF asked_session])

lemma completed_config:
  "min_response_length completed_iv = 5" "\<not> groq_client completed_iv"
  by (simp_all add: completed_iv_def generate_final_report_state [OF asked_session] asked_config)

lemma groq_config:
  "sessions groq_iv = Map.empty" "max_questions groq_iv = 5" "min_response_length groq_iv = 5"
  "groq_client groq_iv" "questions groq_iv = load_questions"
  by (simp_all add: groq_iv_def ExcelInterviewer_init_def)

lemma groq_asked_eq:
  "groq_asked_iv = groq_iv\<lparr>sessions := [''s1'' \<mapsto>
         \<lparr>session_id = ''s1'', current_question = 1, total_score = 0, max_score = 20,
          responses = [], difficulty_level = 1, questions_asked = [hd load_questions],
          started_at = 0, completed_at = None, status = ''active''\<rparr>]\<rparr>"
proof -
  have "sessions (fst (create_session groq_iv ''s1'' 0)) ''s1'' =
     Some \<lparr>session_id = ''s1'', current_question = 0, total_score = 0, max_score = 0,
          responses = [], difficulty_level = 1, questions_asked = [],
          started_at = 0, completed_at = None, status = ''active''\<rparr>"
    by (simp add: create_session_def)
  from first_call_on_bank [OF this, of 0] show ?thesis
    by (simp add: groq_asked_iv_def run_def) (simp add: create_session_def groq_config)
qed

lemma words_five: "int (length (py_split ''one two three four five'')) = 5"
  by code_simp

lemma words_two: "int (length (py_split ''too short'')) = 2"
  by code_simp

lemma str_int_five: "str_int 5 = ''5''"
  by code_simp

lemma fallback_five:
  "score (evaluate_response_fallback ''one two three four five'' (hd load_questions)) = 1"
  by code_simp

lemma groq_scored_session:
  "sessions groq_scored_iv ''s1'' =
     Some \<lparr>session_id = ''s1'', current_question = 1, total_score = 20, max_score = 20,
          responses = [\<lparr>r_question = question (hd load_questions),
                        response = ''one two three four five'',
                        r_evaluation = full_marks, timestamp = 1000000\<rparr>],
          difficulty_level = 1, questions_asked = [hd load_questions],
          started_at = 0, completed_at = None, status = ''active''\<rparr>"
proof -
  have s: "sessions groq_asked_iv ''s1'' = Some \<lparr>session_id = ''s1'', current_question = 1, total_score = 0, max_score = 20,
          responses = [], difficulty_level = 1, questions_asked = [hd load_questions],
          started_at = 0, completed_at = None, status = ''active''\<rparr>"
    by (simp add: groq_asked_eq)
  have "evaluate_response groq_asked_iv ''s1'' ''one two three four five'' 1000000 (Some full_marks)
     = (groq_asked_iv\<lparr>sessions := (sessions groq_asked_iv)(''s1'' \<mapsto>
          \<lparr>session_id = ''s1'', current_question = 1, total_score = 20, max_score = 20,
          responses = [\<lparr>r_question = question (hd load_questions),
                        response = ''one two three four five'',
                        r_evaluation = full_marks, timestamp = 1000000\<rparr>],
          difficulty_level = 1, questions_asked = [hd load_questions],
          started_at = 0, completed_at = None, status = ''active''\<rparr>)\<rparr>, Some full_marks)"
    using evaluate_response_remote [OF s, of "''one two three four five''"
        "Some full_marks" full_marks 1000000]
    by (simp add: words_five groq_asked_eq groq_config) (simp add: full_marks_def)
  then show ?thesis by (simp add: groq_scored_iv_def)
qed

lemma groq_scored_config:
  "max_questions groq_scored_iv = 5" "questions groq_scored_iv = load_questions"
  by (simp_all add: groq_scored_iv_def evaluate_response_def Let_def groq_asked_eq groq_config
        split: option.splits)

subsection \<open>Scores of the fallback evaluator\<close>

text \<open>
  Claim C9. For every question with a positive point value and every response text, the
  score of the fallback evaluator lies between 0 and the points of the question.
\<close>

theorem fallback_score_in_range:
  "0 < points q \<Longrightarrow>
   0 \<le> score (evaluate_response_fallback resp q) \<and>
   score (evaluate_response_fallback resp q) \<le> points q"
  unfolding fallback_score_eq by linarith

theorem fallback_score_in_range_witness:
  "0 < points (hd load_questions) \<and>
   0 \<le> score (evaluate_response_fallback ''pivot tables group data'' (hd load_questions)) \<and>
   score (evaluate_response_fallback ''pivot tables group data'' (hd load_questions))
     \<le> points (hd load_questions)"
  using fallback_score_in_range [of "hd load_questions" "''pivot tables group data''"]
  by (simp add: first_bank_points)

subsection \<open>Trivial responses\<close>

text \<open>
  Claim C1, as amended. For every active session with a question asked and every response
  with fewer words than the configured minimum, \<^verbatim>\<open>evaluate_response\<close> returns the
  zero-score evaluation at once, whatever the remote evaluator would answer, and leaves
  the interviewer state as it was: the evaluation is not appended to the answers of the
  session and the cumulative score is kept.
\<close>

theorem short_response_short_circuit:
  assumes "sessions iv sid = Some s" "status s = ''active''" "questions_asked s \<noteq> []"
    "int (length (py_split resp)) < min_response_length iv"
  shows "evaluate_response iv sid resp now reply =
           (iv, Some \<lparr>score = 0,
                      feedback = ''Please provide a more detailed response (minimum '' @
                                 str_int (min_response_length iv) @ '' words).'',
                      strengths = [],
                      improvements = [''Provide more detailed explanations'']\<rparr>)"
  using assms by (simp add: evaluate_response_short too_short_def)

theorem short_response_short_circuit_witness:
  "sessions asked_iv ''s1'' =
     Some \<lparr>session_id = ''s1'', current_question = 1, total_score = 0, max_score = 20,
          responses = [], difficulty_level = 1, questions_asked = [hd load_questions],
          started_at = 0, completed_at = None, status = ''active''\<rparr> \<and>
   int (length (py_split ''too short'')) < min_response_length asked_iv \<and>
   evaluate_response asked_iv ''s1'' ''too short'' 1000000 None =
     (asked_iv, Some \<lparr>score = 0,
                      feedback = ''Please provide a more detailed response (minimum 5 words).'',
                      strengths = [],
                      improvements = [''Provide more detailed explanations'']\<rparr>)"
proof -
  let ?A = "\<lparr>session_id = ''s1'', current_question = 1, total_score = 0, max_score = 20,
          responses = [], difficulty_level = 1, questions_asked = [hd load_questions],
          started_at = 0, completed_at = None, status = ''active''\<rparr>"
  have short: "int (length (py_split ''too short'')) < min_response_length asked_iv"
    by (simp add: words_two asked_config)
  have active: "status ?A = ''active''" by simp
  have asked: "questions_asked ?A \<noteq> []" by simp
  from short_response_short_circuit [OF asked_session active asked short, of 1000000 None]
  show ?thesis using short by (simp add: asked_session asked_config str_int_five)
qed

text \<open>
  The claim as stated fails: after a two-word answer to the first question the history
  of the session is still empty.
\<close>

theorem short_response_not_recorded:
  "map_option score (snd (evaluate_response asked_iv ''s1'' ''too short'' 1000000 None)) = Some 0 \<and>
   map_option responses
     (sessions (fst (evaluate_response asked_iv ''s1'' ''too short'' 1000000 None)) ''s1'') = Some []"
proof -
  have "evaluate_response asked_iv ''s1'' ''too short'' 1000000 None =
          (asked_iv, Some (too_short asked_iv))"
    by (rule evaluate_response_short [OF asked_session]) (simp_all add: words_two asked_config)
  then show ?thesis
    by (simp add: asked_session too_short_def)
qed

subsection \<open>Rejected answers\<close>

text \<open>
  Claim C3 at a completed session: \<^verbatim>\<open>evaluate_response\<close> does not look at the status,
  so an answer sent after the report is scored and recorded.
\<close>

theorem completed_session_still_scored:
  "map_option status (sessions completed_iv ''s1'') = Some ''completed'' \<and>
   map_option (\<lambda>s. length (responses s)) (sessions completed_iv ''s1'') = Some 0 \<and>
   map_option score
     (snd (evaluate_response completed_iv ''s1'' ''one two three four five'' 61000000 None)) = Some 1 \<and>
   map_option (\<lambda>s. length (responses s))
     (sessions (fst (evaluate_response completed_iv ''s1'' ''one two three four five'' 61000000 None))
        ''s1'') = Some 1 \<and>
   map_option total_score
     (sessions (fst (evaluate_response completed_iv ''s1'' ''one two three four five'' 61000000 None))
        ''s1'') = Some 1"
proof -
  have "\<not> int (length (py_split ''one two three four five'')) < min_response_length completed_iv"
    by (simp add: words_five completed_config)
  from evaluate_response_local [OF completed_session _ this, of None 61000000]
  show ?thesis by (simp add: completed_session completed_config fallback_five)
qed

subsection \<open>The final report\<close>

lemma generate_final_report_again:
  "generate_final_report (fst (generate_final_report iv sid t1)) sid t2 =
   generate_final_report iv sid t2"
proof (cases "sessions iv sid")
  case None
  then show ?thesis by (simp add: generate_final_report_unknown)
next
  case (Some s)
  then show ?thesis
    by (simp add: generate_final_report_state [OF Some])
       (simp add: generate_final_report_def Let_def overall_percentage_def report_header_def
          calculate_duration_def split: sum.splits)
qed

lemma generate_final_report_fields:
  assumes "snd (generate_final_report iv sid t1) = Inr (Some rep1)"
    "snd (generate_final_report iv sid t2) = Inr (Some rep2)"
  shows "r_session_id rep1 = r_session_id rep2 \<and> overall_score rep1 = overall_score rep2 \<and>
     max_possible_score rep1 = max_possible_score rep2 \<and> percentage rep1 = percentage rep2 \<and>
     proficiency_level rep1 = proficiency_level rep2 \<and>
     questions_answered rep1 = questions_answered rep2 \<and>
     detailed_responses rep1 = detailed_responses rep2 \<and>
     recommendation rep1 = recommendation rep2"
proof (cases "sessions iv sid")
  case None
  with assms show ?thesis by (simp add: generate_final_report_unknown)
next
  case (Some s)
  with assms show ?thesis
    by (auto simp: generate_final_report_def Let_def overall_percentage_def split: sum.splits)
qed

lemma asked_report:
  "\<exists>rep. snd (generate_final_report asked_iv ''s1'' t) = Inr (Some rep) \<and>
     duration_minutes rep = round1 (of_int t / 1000000 / 60)"
  by (simp add: generate_final_report_def asked_session Let_def calculate_duration_def)

lemma one_minute: "round1 (of_int 60000000 / 1000000 / 60) = 1"
  by (simp add: round1_def Let_def)

lemma two_minutes: "round1 (of_int 120000000 / 1000000 / 60) = 2"
  by (simp add: round1_def Let_def)

text \<open>
  Claim C2, as amended. \<^verbatim>\<open>generate_final_report\<close> marks the session completed and
  stamps it with the current clock reading on every call. A second call returns what a
  single call at that later time returns, and leaves the state such a call leaves. Two
  calls agree on the session id, the scores, the percentage, the proficiency level, the
  answers and the recommendation; the completion time and the duration follow the clock.
\<close>

theorem report_recomputed_on_every_call:
  "generate_final_report (fst (generate_final_report iv sid t1)) sid t2 =
     generate_final_report iv sid t2 \<and>
   (sessions iv sid = Some s \<longrightarrow>
      sessions (fst (generate_final_report iv sid t1)) sid =
        Some (s\<lparr>status := ''completed'', completed_at := Some t1\<rparr>)) \<and>
   (snd (generate_final_report iv sid t1) = Inr (Some rep1) \<and>
    snd (generate_final_report iv sid t2) = Inr (Some rep2) \<longrightarrow>
      r_session_id rep1 = r_session_id rep2 \<and> overall_score rep1 = overall_score rep2 \<and>
      max_possible_score rep1 = max_possible_score rep2 \<and> percentage rep1 = percentage rep2 \<and>
      proficiency_level rep1 = proficiency_level rep2 \<and>
      questions_answered rep1 = questions_answered rep2 \<and>
      detailed_responses rep1 = detailed_responses rep2 \<and>
      recommendation rep1 = recommendation rep2)"
  using generate_final_report_again [of iv sid t1 t2]
    generate_final_report_fields [of iv sid t1 rep1 t2 rep2]
  by (simp add: generate_final_report_state)

theorem report_recomputed_on_every_call_witness:
  "generate_final_report (fst (generate_final_report asked_iv ''s1'' 60000000)) ''s1'' 120000000 =
     generate_final_report asked_iv ''s1'' 120000000 \<and>
   sessions (fst (generate_final_report asked_iv ''s1'' 60000000)) ''s1'' =
     Some \<lparr>session_id = ''s1'', current_question = 1, total_score = 0, max_score = 20,
          responses = [], difficulty_level = 1, questions_asked = [hd load_questions],
          started_at = 0, completed_at = Some 60000000, status = ''completed''\<rparr> \<and>
   (\<exists>rep1 rep2. snd (generate_final_report asked_iv ''s1'' 60000000) = Inr (Some rep1) \<and>
      snd (generate_final_report asked_iv ''s1'' 120000000) = Inr (Some rep2) \<and>
      percentage rep1 = percentage rep2 \<and> proficiency_level rep1 = proficiency_level rep2 \<and>
      recommendation rep1 = recommendation rep2 \<and>
      duration_minutes rep1 = 1 \<and> duration_minutes rep2 = 2)"
proof -
  obtain rep1 where r1: "snd (generate_final_report asked_iv ''s1'' 60000000) = Inr (Some rep1)"
    and d1: "duration_minutes rep1 = 1"
    using asked_report [of 60000000] one_minute by auto
  obtain rep2 where r2: "snd (generate_final_report asked_iv ''s1'' 120000000) = Inr (Some rep2)"
    and d2: "duration_minutes rep2 = 2"
    using asked_report [of 120000000] two_minutes by auto
  from report_recomputed_on_every_call [of asked_iv "''s1''" 60000000 120000000
      "\<lparr>session_id = ''s1'', current_question = 1, total_score = 0, max_score = 20,
          responses = [], difficulty_level = 1, questions_asked = [hd load_questions],
          started_at = 0, completed_at = None, status = ''active''\<rparr>" rep1 rep2]
    r1 r2 d1 d2 asked_session
  show ?thesis by simp
qed

text \<open>
  The claim as stated fails: a second call one minute after the first moves the
  completion time, and its report differs from the first one.
\<close>

theorem second_report_restamps:
  "map_option completed_at (sessions (fst (generate_final_report asked_iv ''s1'' 60000000)) ''s1'')
     = Some (Some 60000000) \<and>
   map_option completed_at
     (sessions (fst (generate_final_report (fst (generate_final_report asked_iv ''s1'' 60000000))
                       ''s1'' 120000000)) ''s1'')
     = Some (Some 120000000) \<and>
   snd (generate_final_report (fst (generate_final_report asked_iv ''s1'' 60000000)) ''s1'' 120000000)
     \<noteq> snd (generate_final_report asked_iv ''s1'' 60000000)"
proof -
  obtain rep1 where r1: "snd (generate_final_report asked_iv ''s1'' 60000000) = Inr (Some rep1)"
    and d1: "duration_minutes rep1 = 1"
    using asked_report [of 60000000] one_minute by auto
  obtain rep2 where r2: "snd (generate_final_report asked_iv ''s1'' 120000000) = Inr (Some rep2)"
    and d2: "duration_minutes rep2 = 2"
    using asked_report [of 120000000] two_minutes by auto
  from d1 d2 have "rep1 \<noteq> rep2" by auto
  with r1 r2 have differ:
    "snd (generate_final_report asked_iv ''s1'' 120000000)
       \<noteq> snd (generate_final_report asked_iv ''s1'' 60000000)"
    by simp
  have first: "map_option completed_at
      (sessions (fst (generate_final_report asked_iv ''s1'' 60000000)) ''s1'') = Some (Some 60000000)"
    by (simp add: generate_final_report_state [OF asked_session])
  have second: "map_option completed_at
      (sessions (fst (generate_final_report asked_iv ''s1'' 120000000)) ''s1'') = Some (Some 120000000)"
    by (simp add: generate_final_report_state [OF asked_session])
  from first second differ show ?thesis
    by (simp only: generate_final_report_again simp_thms)
qed

subsection \<open>Invariants of a session\<close>

text \<open>
  Claim C4. Start from an interviewer with no session and make any calls of the four
  methods. In every stored session the maximum score is the sum of the points of the
  questions asked, and the number of questions asked is the current question ordinal.
\<close>

theorem max_score_invariant:
  assumes "sessions iv0 = Map.empty" "sessions (run iv0 ops) sid = Some s"
  shows "max_score s = sum_list (map points (questions_asked s)) \<and>
         int (length (questions_asked s)) = current_question s"
  using assms(2)
proof (induction ops arbitrary: sid s rule: rev_induct)
  case Nil
  with assms(1) show ?case by (simp add: run_Nil)
next
  case (snoc ope ops)
  from snoc.prems have "sessions (step (run iv0 ops) ope) sid = Some s"
    by (simp add: run_snoc)
  from step_session_from [OF this] snoc.IH show ?case by auto
qed

theorem max_score_invariant_witness:
  "sessions groq_iv = Map.empty \<and>
   sessions (run groq_iv [CreateSession ''s1'' 0, NextQuestion ''s1'' 0,
       SubmitAnswer ''s1'' ''one two three four five'' 1000000 (Some full_marks)]) ''s1'' =
     Some \<lparr>session_id = ''s1'', current_question = 1, total_score = 20, max_score = 20,
          responses = [\<lparr>r_question = question (hd load_questions),
                        response = ''one two three four five'',
                        r_evaluation = full_marks, timestamp = 1000000\<rparr>],
          difficulty_level = 1, questions_asked = [hd load_questions],
          started_at = 0, completed_at = None, status = ''active''\<rparr> \<and>
   (20::int) = sum_list (map points [hd load_questions]) \<and>
   int (length [hd load_questions]) = 1"
proof -
  have r: "run groq_iv [CreateSession ''s1'' 0, NextQuestion ''s1'' 0,
       SubmitAnswer ''s1'' ''one two three four five'' 1000000 (Some full_marks)] = groq_scored_iv"
    by (simp add: run_def groq_scored_iv_def groq_asked_iv_def)
  have h: "sessions (run groq_iv [CreateSession ''s1'' 0, NextQuestion ''s1'' 0,
       SubmitAnswer ''s1'' ''one two three four five'' 1000000 (Some full_marks)]) ''s1'' =
     Some \<lparr>session_id = ''s1'', current_question = 1, total_score = 20, max_score = 20,
          responses = [\<lparr>r_question = question (hd load_questions),
                        response = ''one two three four five'',
                        r_evaluation = full_marks, timestamp = 1000000\<rparr>],
          difficulty_level = 1, questions_asked = [hd load_questions],
          started_at = 0, completed_at = None, status = ''active''\<rparr>"
    by (simp only: r groq_scored_session)
  from max_score_invariant [OF groq_config(1) h] groq_config(1) h show ?thesis by simp
qed

lemma difficulty_level_bounds:
  assumes "sessions iv0 = Map.empty" "sessions (run iv0 ops) sid = Some s"
  shows "1 \<le> difficulty_level s \<and> difficulty_level s \<le> 3"
  using assms(2)
proof (induction ops arbitrary: sid s rule: rev_induct)
  case Nil
  with assms(1) show ?case by (simp add: run_Nil)
next
  case (snoc ope ops)
  from snoc.prems have "sessions (step (run iv0 ops) ope) sid = Some s"
    by (simp add: run_snoc)
  from step_session_from [OF this] snoc.IH show ?case
    using adjusted_level_bounds by fastforce
qed

text \<open>
  Claim C5. Take a session stored after any calls made on an interviewer that started
  with no session, and make any further calls, none of which creates a session under the
  same identifier (a UUID is issued once). The session is still stored, its difficulty
  level has not decreased, and the level lies between 1 and 3.
\<close>

theorem difficulty_level_monotone:
  assumes "sessions iv0 = Map.empty" "sessions (run iv0 ops0) sid = Some s"
    "\<forall>now. CreateSession sid now \<notin> set ops"
  shows "\<exists>s'. sessions (run (run iv0 ops0) ops) sid = Some s' \<and>
           difficulty_level s \<le> difficulty_level s' \<and>
           1 \<le> difficulty_level s \<and> difficulty_level s' \<le> 3"
  using assms(3)
proof (induction ops rule: rev_induct)
  case Nil
  from difficulty_level_bounds [OF assms(1,2)] assms(2) show ?case by (simp add: run_Nil)
next
  case (snoc ope ops)
  then obtain s1 where s1: "sessions (run (run iv0 ops0) ops) sid = Some s1"
    and le: "difficulty_level s \<le> difficulty_level s1" and lo: "1 \<le> difficulty_level s"
    by auto
  have s1': "sessions (run iv0 (ops0 @ ops)) sid = Some s1"
    using s1 by (simp add: run_append)
  have b1: "1 \<le> difficulty_level s1 \<and> difficulty_level s1 \<le> 3"
    by (rule difficulty_level_bounds [OF assms(1) s1'])
  have "\<And>now. ope \<noteq> CreateSession sid now" using snoc.prems by auto
  from step_session_to [OF s1 this] obtain s2 where
    s2: "sessions (step (run (run iv0 ops0) ops) ope) sid = Some s2" and
    lv: "difficulty_level s2 = difficulty_level s1 \<or> difficulty_level s2 = adjusted_level s1"
    by blast
  from lv b1 adjusted_level_bounds [of s1]
  have "difficulty_level s1 \<le> difficulty_level s2 \<and> difficulty_level s2 \<le> 3" by auto
  with s2 le lo show ?case by (simp add: run_snoc)
qed

lemma groq_scored_level:
  "\<exists>s'. sessions (fst (get_next_question groq_scored_iv ''s1'' r)) ''s1'' = Some s' \<and>
     difficulty_level s' = 2"
proof -
  let ?B = "\<lparr>session_id = ''s1'', current_question = 1, total_score = 20, max_score = 20,
          responses = [\<lparr>r_question = question (hd load_questions),
                        response = ''one two three four five'',
                        r_evaluation = full_marks, timestamp = 1000000\<rparr>],
          difficulty_level = 1, questions_asked = [hd load_questions],
          started_at = 0, completed_at = None, status = ''active''\<rparr>"
  have av: "available_questions groq_scored_iv ?B \<noteq> []"
    by (simp add: available_questions_def groq_scored_config load_questions_def)
  have lvl: "adjusted_level ?B = 2"
    by (simp add: adjusted_level_def success_rate_def)
  from get_next_question_some [OF groq_scored_session _ av, of r] lvl
  show ?thesis by (auto simp: groq_scored_config)
qed

theorem difficulty_level_monotone_witness:
  "sessions groq_iv = Map.empty \<and>
   sessions (run groq_iv [CreateSession ''s1'' 0, NextQuestion ''s1'' 0]) ''s1'' =
     Some \<lparr>session_id = ''s1'', current_question = 1, total_score = 0, max_score = 20,
          responses = [], difficulty_level = 1, questions_asked = [hd load_questions],
          started_at = 0, completed_at = None, status = ''active''\<rparr> \<and>
   (\<forall>now. CreateSession ''s1'' now \<notin>
      set [SubmitAnswer ''s1'' ''one two three four five'' 1000000 (Some full_marks),
           NextQuestion ''s1'' 7]) \<and>
   (\<exists>s'. sessions (run (run groq_iv [CreateSession ''s1'' 0, NextQuestion ''s1'' 0])
              [SubmitAnswer ''s1'' ''one two three four five'' 1000000 (Some full_marks),
               NextQuestion ''s1'' 7]) ''s1'' = Some s' \<and>
         difficulty_level s' = 2 \<and> (1::int) \<le> difficulty_level s' \<and> difficulty_level s' \<le> 3)"
proof -
  let ?A = "\<lparr>session_id = ''s1'', current_question = 1, total_score = 0, max_score = 20,
          responses = [], difficulty_level = 1, questions_asked = [hd load_questions],
          started_at = 0, completed_at = None, status = ''active''\<rparr>"
  let ?ops = "[SubmitAnswer ''s1'' ''one two three four five'' 1000000 (Some full_marks),
           NextQuestion ''s1'' 7]"
  have h2: "sessions (run groq_iv [CreateSession ''s1'' 0, NextQuestion ''s1'' 0]) ''s1'' = Some ?A"
    by (simp add: groq_asked_iv_def [symmetric] groq_asked_eq)
  have h3: "\<forall>now. CreateSession ''s1'' now \<notin> set ?ops"
    by simp
  have r: "run (run groq_iv [CreateSession ''s1'' 0, NextQuestion ''s1'' 0]) ?ops =
             fst (get_next_question groq_scored_iv ''s1'' 7)"
    by (simp add: groq_scored_iv_def groq_asked_iv_def run_def)
  from difficulty_level_monotone [OF groq_config(1) h2 h3] groq_scored_level [of 7]
  show ?thesis using groq_config(1) h2 h3 by (auto simp: r)
qed

text \<open>
  Claim C6. For a stored active session, \<^verbatim>\<open>get_next_question\<close> returns \<open>None\<close>
  exactly when the ordinal has reached \<^verbatim>\<open>max_questions\<close> or no question of the bank
  has a difficulty of at most the current level plus one and is not yet asked.
\<close>

theorem next_question_none_iff:
  assumes "sessions iv sid = Some s" "status s = ''active''"
  shows "(snd (get_next_question iv sid r) = None) =
         (max_questions iv \<le> current_question s \<or>
          \<not> (\<exists>q \<in> set (questions iv).
                difficulty q \<le> difficulty_level s + 1 \<and> q \<notin> set (questions_asked s)))"
proof -
  have av: "(available_questions iv s = []) =
        (\<not> (\<exists>q \<in> set (questions iv).
                difficulty q \<le> difficulty_level s + 1 \<and> q \<notin> set (questions_asked s)))"
    by (auto simp: available_questions_def filter_empty_conv)
  show ?thesis
  proof (cases "available_questions iv s = [] \<or> max_questions iv \<le> current_question s")
    case True
    then have "get_next_question iv sid r = (iv, None)"
      using assms(1) by (intro get_next_question_none) auto
    with True av show ?thesis by auto
  next
    case False
    with get_next_question_some [of iv sid s r] assms
    have "snd (get_next_question iv sid r) \<noteq> None" by auto
    with False av show ?thesis by auto
  qed
qed

theorem next_question_none_iff_witness:
  "sessions asked_iv ''s1'' =
     Some \<lparr>session_id = ''s1'', current_question = 1, total_score = 0, max_score = 20,
          responses = [], difficulty_level = 1, questions_asked = [hd load_questions],
          started_at = 0, completed_at = None, status = ''active''\<rparr> \<and>
   \<not> max_questions asked_iv \<le> 1 \<and>
   load_questions ! 1 \<in> set (questions asked_iv) \<and>
   difficulty (load_questions ! 1) \<le> 1 + 1 \<and>
   load_questions ! 1 \<notin> set [hd load_questions] \<and>
   snd (get_next_question asked_iv ''s1'' 3) \<noteq> None"
proof -
  have q: "load_questions ! 1 \<in> set (questions asked_iv) \<and>
      difficulty (load_questions ! 1) \<le> 1 + 1 \<and> load_questions ! 1 \<notin> set [hd load_questions]"
    by (simp add: asked_config load_questions_def)
  then have "\<exists>q \<in> set (questions asked_iv). difficulty q \<le> 1 + 1 \<and> q \<notin> set [hd load_questions]"
    by blast
  with next_question_none_iff [OF asked_session, of 3] q
  show ?thesis by (simp add: asked_session asked_config)
qed

text \<open>
  Claim C7. When \<^verbatim>\<open>get_next_question\<close> returns a question, it shows a record of the
  bank that was not among the questions asked at the time of the call; the record is
  appended to them, so a list without repetition stays without repetition.
\<close>

theorem next_question_not_asked:
  assumes "sessions iv sid = Some s" "get_next_question iv sid r = (iv', Some v)"
  shows "\<exists>q s'. q \<in> set (questions iv) \<and> q \<notin> set (questions_asked s) \<and>
           v_question v = question q \<and> v_category v = category q \<and>
           v_difficulty v = difficulty q \<and>
           sessions iv' sid = Some s' \<and> questions_asked s' = questions_asked s @ [q] \<and>
           (distinct (questions_asked s) \<longrightarrow> distinct (questions_asked s'))"
proof -
  have ok: "status s = ''active'' \<and> available_questions iv s \<noteq> [] \<and>
        current_question s < max_questions iv"
    using assms get_next_question_none [of iv sid s r] by fastforce
  with assms(1) obtain q lvl where
    q: "q \<in> set (available_questions iv s)" and
    eq: "get_next_question iv sid r =
             (iv\<lparr>sessions := (sessions iv)(sid \<mapsto>
                  s\<lparr>difficulty_level := lvl,
                    questions_asked := questions_asked s @ [q],
                    current_question := current_question s + 1,
                    max_score := max_score s + points q\<rparr>)\<rparr>,
              Some \<lparr>question_number = current_question s + 1,
                    v_question = question q, v_category = category q,
                    v_difficulty = difficulty q,
                    total_questions = max_questions iv\<rparr>)"
    using get_next_question_some [of iv sid s r] by blast
  from q have "q \<in> set (questions iv)" "q \<notin> set (questions_asked s)"
    by (simp_all add: available_questions_def)
  with eq assms(2) show ?thesis
    by (intro exI [of _ q]) auto
qed

theorem next_question_not_asked_witness:
  "sessions asked_iv ''s1'' =
     Some \<lparr>session_id = ''s1'', current_question = 1, total_score = 0, max_score = 20,
          responses = [], difficulty_level = 1, questions_asked = [hd load_questions],
          started_at = 0, completed_at = None, status = ''active''\<rparr> \<and>
   get_next_question asked_iv ''s1'' 0 =
     (fst (get_next_question asked_iv ''s1'' 0),
      Some \<lparr>question_number = 2,
            v_question = ''How would you remove duplicates from a dataset in Excel?'',
            v_category = ''Basic'', v_difficulty = 1, total_questions = 5\<rparr>) \<and>
   (\<exists>q s'. q \<in> set (questions asked_iv) \<and> q \<notin> set [hd load_questions] \<and>
      question q = ''How would you remove duplicates from a dataset in Excel?'' \<and>
      sessions (fst (get_next_question asked_iv ''s1'' 0)) ''s1'' = Some s' \<and>
      questions_asked s' = [hd load_questions, q] \<and>
      distinct (questions_asked s'))"
proof -
  have g: "get_next_question asked_iv ''s1'' 0 =
     (fst (get_next_question asked_iv ''s1'' 0),
      Some \<lparr>question_number = 2,
            v_question = ''How would you remove duplicates from a dataset in Excel?'',
            v_category = ''Basic'', v_difficulty = 1, total_questions = 5\<rparr>)"
    by (simp add: asked_next)
  from next_question_not_asked [OF asked_session g] asked_session g
  show ?thesis by auto
qed

lemma fresh_available:
  "questions_asked s = [] \<Longrightarrow> difficulty_level s = 1 \<Longrightarrow>
   available_questions iv s = filter (\<lambda>q. difficulty q \<le> 2) (questions iv)"
  by (simp add: available_questions_def)

lemma tier_one_of_available:
  "filter (\<lambda>q. difficulty q \<le> 2 \<and> difficulty q = 1) qs =
   filter (\<lambda>q. difficulty q = (1::int)) qs"
  by (rule filter_cong) auto

text \<open>
  Claim C8, as amended. Take a session as \<^verbatim>\<open>create_session\<close> makes it (ordinal 0, no
  question asked, level 1, active) and a \<^verbatim>\<open>max_questions\<close> of at least 1. The first
  \<^verbatim>\<open>get_next_question\<close> asks the first question of difficulty 1 in bank order, or, when
  the bank has none, its first question of difficulty at most 2, whatever the random
  draw. On the bank of \<^verbatim>\<open>load_questions\<close> this is the VLOOKUP question, worth 20 points.
\<close>

theorem first_question_of_fresh_session:
  assumes "sessions iv sid = Some s" "status s = ''active''" "current_question s = 0"
    "questions_asked s = []" "difficulty_level s = 1" "0 < max_questions iv"
  shows "(filter (\<lambda>q. difficulty q \<le> 2) (questions iv) \<noteq> [] \<longrightarrow>
            (\<exists>s'. sessions (fst (get_next_question iv sid r)) sid = Some s' \<and>
               questions_asked s' =
                 [case filter (\<lambda>q. difficulty q = 1) (questions iv) of
                    [] \<Rightarrow> hd (filter (\<lambda>q. difficulty q \<le> 2) (questions iv))
                  | q # _ \<Rightarrow> q])) \<and>
         (questions iv = load_questions \<longrightarrow>
            snd (get_next_question iv sid r) =
              Some \<lparr>question_number = 1,
                    v_question =
                      ''Explain the difference between VLOOKUP and INDEX-MATCH functions.'',
                    v_category = ''Basic'', v_difficulty = 1,
                    total_questions = max_questions iv\<rparr> \<and>
            (\<exists>s'. sessions (fst (get_next_question iv sid r)) sid = Some s' \<and>
               questions_asked s' = [hd load_questions] \<and>
               points (hd load_questions) = 20 \<and> max_score s' = max_score s + 20))"
proof (intro conjI impI)
  assume ne: "filter (\<lambda>q. difficulty q \<le> 2) (questions iv) \<noteq> []"
  have av: "available_questions iv s = filter (\<lambda>q. difficulty q \<le> 2) (questions iv)"
    using assms(4,5) by (rule fresh_available)
  with assms ne show "\<exists>s'. sessions (fst (get_next_question iv sid r)) sid = Some s' \<and>
               questions_asked s' =
                 [case filter (\<lambda>q. difficulty q = 1) (questions iv) of
                    [] \<Rightarrow> hd (filter (\<lambda>q. difficulty q \<le> 2) (questions iv))
                  | q # _ \<Rightarrow> q]"
    by (simp add: get_next_question_def Let_def first_question_def tier_one_of_available)
next
  assume bank: "questions iv = load_questions"
  note eq = first_call_on_bank [OF assms bank, of r]
  show "snd (get_next_question iv sid r) =
              Some \<lparr>question_number = 1,
                    v_question =
                      ''Explain the difference between VLOOKUP and INDEX-MATCH functions.'',
                    v_category = ''Basic'', v_difficulty = 1,
                    total_questions = max_questions iv\<rparr>"
    by (simp add: eq)
  show "\<exists>s'. sessions (fst (get_next_question iv sid r)) sid = Some s' \<and>
               questions_asked s' = [hd load_questions] \<and>
               points (hd load_questions) = 20 \<and> max_score s' = max_score s + 20"
    by (simp add: eq first_bank_points)
qed

theorem first_question_of_fresh_session_witness:
  "sessions (fst (create_session example_iv ''s1'' 0)) ''s1'' =
     Some \<lparr>session_id = ''s1'', current_question = 0, total_score = 0, max_score = 0,
          responses = [], difficulty_level = 1, questions_asked = [],
          started_at = 0, completed_at = None, status = ''active''\<rparr> \<and>
   0 < max_questions (fst (create_session example_iv ''s1'' 0)) \<and>
   questions (fst (create_session example_iv ''s1'' 0)) = load_questions \<and>
   filter (\<lambda>q. difficulty q \<le> 2) (questions (fst (create_session example_iv ''s1'' 0))) \<noteq> [] \<and>
   snd (get_next_question (fst (create_session example_iv ''s1'' 0)) ''s1'' 11) =
     Some \<lparr>question_number = 1,
           v_question = ''Explain the difference between VLOOKUP and INDEX-MATCH functions.'',
           v_category = ''Basic'', v_difficulty = 1, total_questions = 5\<rparr> \<and>
   (\<exists>s'. sessions (fst (get_next_question (fst (create_session example_iv ''s1'' 0)) ''s1'' 11))
            ''s1'' = Some s' \<and>
         questions_asked s' = [hd load_questions] \<and> max_score s' = 20)"
proof -
  have ne: "filter (\<lambda>q. difficulty q \<le> 2) (questions opened_iv) \<noteq> []"
    by (simp add: opened_config load_questions_def)
  from first_question_of_fresh_session [OF opened_session, of 11] ne
  show ?thesis
    by (auto simp: opened_iv_def [symmetric] opened_session opened_config)
qed

text \<open>
  The claim as stated fails: nothing in \<^verbatim>\<open>app.py\<close> keeps \<^verbatim>\<open>MAX_QUESTIONS\<close> positive,
  and with a limit of 0 the first call on a new session returns \<open>None\<close>.
\<close>

theorem first_call_none_at_zero_limit:
  "sessions (fst (create_session (ExcelInterviewer_init 0 5 False) ''s1'' 0)) ''s1'' =
     Some \<lparr>session_id = ''s1'', current_question = 0, total_score = 0, max_score = 0,
          responses = [], difficulty_level = 1, questions_asked = [],
          started_at = 0, completed_at = None, status = ''active''\<rparr> \<and>
   questions (fst (create_session (ExcelInterviewer_init 0 5 False) ''s1'' 0)) = load_questions \<and>
   snd (get_next_question (fst (create_session (ExcelInterviewer_init 0 5 False) ''s1'' 0))
          ''s1'' 0) = None"
proof -
  have s: "sessions (fst (create_session (ExcelInterviewer_init 0 5 False) ''s1'' 0)) ''s1'' =
     Some \<lparr>session_id = ''s1'', current_question = 0, total_score = 0, max_score = 0,
          responses = [], difficulty_level = 1, questions_asked = [],
          started_at = 0, completed_at = None, status = ''active''\<rparr>"
    by (simp add: create_session_def)
  have "get_next_question (fst (create_session (ExcelInterviewer_init 0 5 False) ''s1'' 0))
          ''s1'' 0 = (fst (create_session (ExcelInterviewer_init 0 5 False) ''s1'' 0), None)"
    by (rule get_next_question_none [OF s])
       (simp add: create_session_def ExcelInterviewer_init_def)
  with s show ?thesis by (simp add: create_session_def ExcelInterviewer_init_def)
qed

text \<open>
  Claim C10, as amended. For a question with positive points the fallback evaluator
  scores at least 1, the empty response included. So when \<^verbatim>\<open>evaluate_response\<close>
  returns a score of 0 for such a question, the response was below the minimum word
  count, or the score is the one a remote reply carried; below the minimum the score is
  always 0.
\<close>

theorem fallback_never_zero:
  "(0 < points q \<longrightarrow> 1 \<le> score (evaluate_response_fallback resp q)) \<and>
   (sessions iv sid = Some s \<and> questions_asked s \<noteq> [] \<and>
    0 < points (last (questions_asked s)) \<longrightarrow>
      (\<exists>ev. snd (evaluate_response iv sid resp now reply) = Some ev \<and>
         (int (length (py_split resp)) < min_response_length iv \<longrightarrow> score ev = 0) \<and>
         (score ev = 0 \<longrightarrow> int (length (py_split resp)) < min_response_length iv \<or>
                              (groq_client iv \<and> reply = Some ev))))"
proof (intro conjI impI)
  assume "0 < points q"
  then show "1 \<le> score (evaluate_response_fallback resp q)" by (rule fallback_score_pos)
next
  assume a: "sessions iv sid = Some s \<and> questions_asked s \<noteq> [] \<and>
    0 < points (last (questions_asked s))"
  then have pos: "1 \<le> score (evaluate_response_fallback resp (last (questions_asked s)))"
    by (simp add: fallback_score_pos)
  show "\<exists>ev. snd (evaluate_response iv sid resp now reply) = Some ev \<and>
         (int (length (py_split resp)) < min_response_length iv \<longrightarrow> score ev = 0) \<and>
         (score ev = 0 \<longrightarrow> int (length (py_split resp)) < min_response_length iv \<or>
                              (groq_client iv \<and> reply = Some ev))"
  proof (cases "int (length (py_split resp)) < min_response_length iv")
    case True
    with a show ?thesis by (simp add: evaluate_response_short too_short_def)
  next
    case False
    show ?thesis
    proof (cases "groq_client iv \<and> reply \<noteq> None")
      case True
      then obtain ev where ev: "reply = Some ev" and groq: "groq_client iv" by auto
      from a have s: "sessions iv sid = Some s" and ne: "questions_asked s \<noteq> []" by simp_all
      from evaluate_response_remote [OF s ne False groq ev, of now] False groq ev
      show ?thesis by simp
    next
      case local: False
      then have loc: "\<not> groq_client iv \<or> reply = None" by simp
      from a have s: "sessions iv sid = Some s" and ne: "questions_asked s \<noteq> []" by simp_all
      show ?thesis
        using False pos by (simp add: evaluate_response_local [OF s ne False loc])
    qed
  qed
qed

theorem fallback_never_zero_witness:
  "0 < points (hd load_questions) \<and>
   1 \<le> score (evaluate_response_fallback '''' (hd load_questions)) \<and>
   sessions asked_iv ''s1'' =
     Some \<lparr>session_id = ''s1'', current_question = 1, total_score = 0, max_score = 20,
          responses = [], difficulty_level = 1, questions_asked = [hd load_questions],
          started_at = 0, completed_at = None, status = ''active''\<rparr> \<and>
   \<not> int (length (py_split ''one two three four five'')) < min_response_length asked_iv \<and>
   (\<exists>ev. snd (evaluate_response asked_iv ''s1'' ''one two three four five'' 61000000 None)
            = Some ev \<and> score ev \<noteq> 0)"
proof -
  have long: "\<not> int (length (py_split ''one two three four five'')) < min_response_length asked_iv"
    by (simp add: words_five asked_config)
  from fallback_never_zero [of "hd load_questions" "''''" asked_iv "''s1''"
      "\<lparr>session_id = ''s1'', current_question = 1, total_score = 0, max_score = 20,
          responses = [], difficulty_level = 1, questions_asked = [hd load_questions],
          started_at = 0, completed_at = None, status = ''active''\<rparr>"]
    fallback_never_zero [of "hd load_questions" "''one two three four five''" asked_iv "''s1''"
      "\<lparr>session_id = ''s1'', current_question = 1, total_score = 0, max_score = 20,
          responses = [], difficulty_level = 1, questions_asked = [hd load_questions],
          started_at = 0, completed_at = None, status = ''active''\<rparr>" 61000000 None]
    long asked_session
  show ?thesis by (auto simp: first_bank_points asked_config)
qed

text \<open>
  The claim as stated fails: with a Groq client, a reply that gives 0 points to a
  five-word answer is returned as it is.
\<close>

theorem remote_reply_scores_zero:
  "map_option questions_asked (sessions groq_asked_iv ''s1'') = Some [hd load_questions] \<and>
   points (hd load_questions) = 20 \<and>
   \<not> int (length (py_split ''one two three four five'')) < min_response_length groq_asked_iv \<and>
   map_option score
     (snd (evaluate_response groq_asked_iv ''s1'' ''one two three four five'' 1000000
        (Some \<lparr>score = 0, feedback = ''Does not answer the question.'', strengths = [],
               improvements = [''Explain both functions'']\<rparr>))) = Some 0"
proof -
  have s: "sessions groq_asked_iv ''s1'' =
     Some \<lparr>session_id = ''s1'', current_question = 1, total_score = 0, max_score = 20,
          responses = [], difficulty_level = 1, questions_asked = [hd load_questions],
          started_at = 0, completed_at = None, status = ''active''\<rparr>"
    by (simp add: groq_asked_eq)
  have long: "\<not> int (length (py_split ''one two three four five'')) < min_response_length groq_asked_iv"
    by (simp add: words_five groq_asked_eq groq_config)
  have groq: "groq_client groq_asked_iv" by (simp add: groq_asked_eq groq_config)
  from evaluate_response_remote [OF s _ long groq refl, of 1000000] s long
  show ?thesis by (simp add: first_bank_points)
qed

end
